theory Spec2Isabelle
  imports Main "HOL-Library.AList"
begin

section \<open>House Color Gallery: ratings, subscriptions and aggregation\<close>

text \<open>
  The development embeds three pieces of the gallery's JavaScript:
  \<^item> \<^verbatim>\<open>categorizeImage\<close> of the Results module,
  \<^item> \<^verbatim>\<open>groupImagesByLikes\<close> of the Gallery module and \<^verbatim>\<open>applyLikesFilter\<close> of the
    Swatches module,
  \<^item> the Ratings module of \<^verbatim>\<open>js/ratings.js\<close> (cache, watchers, \<^verbatim>\<open>setRating\<close>,
    \<^verbatim>\<open>getRatings\<close>, \<^verbatim>\<open>subscribeToRatings\<close>, the snapshot bridge of \<^verbatim>\<open>mountCard\<close>).

  A JavaScript object used as a dictionary (a vote map, the offline record) is an
  association list of its own properties, with unique keys: \<open>AList.update\<close> defines an own
  property (overwrite in place, or append), \<open>AList.delete\<close> is \<^verbatim>\<open>delete o[k]\<close> and
  \<open>map_of\<close> is the lookup \<^verbatim>\<open>o[k]\<close> among the own properties; the assignment
  \<^verbatim>\<open>o[k] = v\<close> is \<open>assign\<close> below. A JavaScript \<^verbatim>\<open>Map\<close> that is never iterated (the cache, the
  watcher registry) is a partial function. A value that may be \<^verbatim>\<open>null\<close> or
  \<^verbatim>\<open>undefined\<close> is an \<open>option\<close>.
\<close>

subsection \<open>Text normalisation\<close>

text \<open>
  A \<open>char\<close> is a code unit below 256, so the strings of the model are the JavaScript
  strings over U+0000 to U+00FF. Among these code units, the white space and line
  terminators that \<^verbatim>\<open>String.prototype.trim\<close> strips are U+0009 to U+000D, U+0020 and
  U+00A0; the others it strips (U+FEFF, U+2028, U+2029 and the remaining Unicode spaces)
  lie beyond the model's strings.
\<close>

definition isWhitespace :: "char \<Rightarrow> bool" where
  "isWhitespace c =
     (c = CHR 0x09 \<or> c = CHR 0x0A \<or> c = CHR 0x0B \<or> c = CHR 0x0C \<or> c = CHR 0x0D \<or> c = CHR '' ''
      \<or> c = CHR 0xA0)"

definition trim :: "string \<Rightarrow> string" where
  "trim s = rev (dropWhile isWhitespace (rev (dropWhile isWhitespace s)))"

text \<open>\<^verbatim>\<open>normalizeText(value) = String(value ?? "").trim()\<close>\<close>

definition normalizeText :: "string option \<Rightarrow> string" where
  "normalizeText value = trim (case value of None \<Rightarrow> [] | Some s \<Rightarrow> s)"

subsection \<open>Vote maps\<close>

type_synonym votemap = "(string \<times> string) list"

text \<open>
  The assignment \<^verbatim>\<open>o[k] = v\<close> on a plain object. For the key \<^verbatim>\<open>__proto__\<close>, unless the
  object has an own property of that name (as an object read by \<^verbatim>\<open>JSON.parse\<close> or copied
  by a spread may), the assignment runs the setter inherited from \<^verbatim>\<open>Object.prototype\<close>:
  it stores no property (a string is ignored, an object becomes the prototype, which
  neither a spread nor \<^verbatim>\<open>JSON.stringify\<close> shows). Every other key is stored.
  Reading \<^verbatim>\<open>o[k]\<close> for a key that is no own property gives \<^verbatim>\<open>undefined\<close> or an
  inherited value, never a vote: \<open>map_of o k = None\<close>. \<^verbatim>\<open>Object.prototype\<close> is taken to
  be as the language provides it.
\<close>

definition assign :: "string \<Rightarrow> 'v \<Rightarrow> (string \<times> 'v) list \<Rightarrow> (string \<times> 'v) list" where
  "assign k v obj =
     (if k = ''__proto__'' \<and> map_of obj k = None then obj else AList.update k v obj)"

text \<open>\<^verbatim>\<open>const VALID = new Set(["like", "unsure", "dislike"])\<close>\<close>

definition VALID :: "string set" where
  "VALID = {''like'', ''unsure'', ''dislike''}"

subsection \<open>Results module: \<^verbatim>\<open>categorizeImage\<close>\<close>

definition categorizeImage :: "votemap option \<Rightarrow> string" where
  "categorizeImage ratings =
     (let votes = map snd (case ratings of None \<Rightarrow> [] | Some r \<Rightarrow> r) in
      if length votes = 0 then ''unrated''
      else
        let likes = length (filter (\<lambda>v. v = ''like'') votes);
            dislikes = length (filter (\<lambda>v. v = ''dislike'') votes)
        in
          if length votes < 2 then ''unrated''
          else if likes > 0 \<and> dislikes = 0 then ''consensus''
          else if dislikes > likes then ''rejected''
          else if likes > 0 \<and> dislikes > 0 then ''controversial''
          else ''unrated'')"

subsection \<open>Gallery module: tiers by like count\<close>

text \<open>
  \<^verbatim>\<open>const TIERS = [{ likeCount: 3, name: "Favorites" }, { likeCount: 2, name: "Strong" },
  { likeCount: 1, name: "Maybe" }, { likeCount: 0, name: "Rejected" }]\<close>
\<close>

definition TIERS :: "(int \<times> string) list" where
  "TIERS = [(3, ''Favorites''), (2, ''Strong''), (1, ''Maybe''), (0, ''Rejected'')]"

text \<open>
  The key \<^verbatim>\<open>groupImagesByLikes\<close> files an image under. The Ratings module exports no
  \<^verbatim>\<open>getLikeCount\<close>, so the like count is
  \<^verbatim>\<open>Object.values(ratings).filter(v => v === "like").length\<close>, then clamped:
  \<^verbatim>\<open>Math.min(3, Math.max(0, likeCount))\<close>.
\<close>

definition tierKey :: "votemap \<Rightarrow> int" where
  "tierKey ratings =
     (let likeCount = int (length (filter (\<lambda>v. v = ''like'') (map snd ratings)))
      in min 3 (max 0 likeCount))"

text \<open>
  \<^verbatim>\<open>groupImagesByLikes(images)\<close>: the loop pushes each image onto \<^verbatim>\<open>groups[key]\<close>. The
  ratings of an image come from \<^verbatim>\<open>getRatingsForImage(image.id)\<close>, here the parameter
  \<open>ratingsFor\<close>.
\<close>

fun groupLoop :: "('i \<Rightarrow> votemap) \<Rightarrow> 'i list \<Rightarrow> (int \<Rightarrow> 'i list) \<Rightarrow> (int \<Rightarrow> 'i list)" where
  "groupLoop ratingsFor [] groups = groups"
| "groupLoop ratingsFor (img # images) groups =
     (let key = tierKey (ratingsFor img)
      in groupLoop ratingsFor images (groups(key := groups key @ [img])))"

definition groupImagesByLikes :: "('i \<Rightarrow> votemap) \<Rightarrow> 'i list \<Rightarrow> (int \<Rightarrow> 'i list)" where
  "groupImagesByLikes ratingsFor images = groupLoop ratingsFor images (\<lambda>_. [])"

subsection \<open>Swatches module: \<^verbatim>\<open>applyLikesFilter\<close>\<close>

text \<open>
  A swatch of \<^verbatim>\<open>data/swatches.json\<close> carries pre-computed \<^verbatim>\<open>score\<close> and \<^verbatim>\<open>likes\<close>
  fields, either of which may be missing.
\<close>

record swatch =
  swatchId :: string
  score :: "int option"
  likes :: "int option"

text \<open>\<^verbatim>\<open>x || 0\<close> on a number that may be missing.\<close>

definition orZero :: "int option \<Rightarrow> int" where
  "orZero x = (case x of None \<Rightarrow> 0 | Some n \<Rightarrow> n)"

text \<open>
  The comparator \<^verbatim>\<open>(b.score || 0) - (a.score || 0) || (b.likes || 0) - (a.likes || 0)\<close>.
\<close>

definition byScoreThenLikes :: "swatch \<Rightarrow> swatch \<Rightarrow> int" where
  "byScoreThenLikes a b =
     (let d = orZero (score b) - orZero (score a)
      in if d \<noteq> 0 then d else orZero (likes b) - orZero (likes a))"

text \<open>\<^verbatim>\<open>Array.prototype.sort\<close> with a comparator: a stable insertion sort.\<close>

fun insertBy :: "('a \<Rightarrow> 'a \<Rightarrow> int) \<Rightarrow> 'a \<Rightarrow> 'a list \<Rightarrow> 'a list" where
  "insertBy cmp x [] = [x]"
| "insertBy cmp x (y # ys) = (if cmp x y \<le> 0 then x # y # ys else y # insertBy cmp x ys)"

definition sortBy :: "('a \<Rightarrow> 'a \<Rightarrow> int) \<Rightarrow> 'a list \<Rightarrow> 'a list" where
  "sortBy cmp xs = foldr (insertBy cmp) xs []"

definition applyLikesFilter :: "swatch list \<Rightarrow> string \<Rightarrow> swatch list" where
  "applyLikesFilter swatches flt =
     (let result =
        (if flt = ''favorites'' then filter (\<lambda>s. orZero (score s) \<ge> 5) swatches
         else if flt = ''strong'' then filter (\<lambda>s. orZero (score s) \<ge> 4) swatches
         else if flt = ''promising'' then filter (\<lambda>s. orZero (score s) \<ge> 3) swatches
         else if flt = ''controversial'' then filter (\<lambda>s. orZero (score s) \<le> 2) swatches
         else swatches)
      in sortBy byScoreThenLikes result)"

text \<open>
  Modelled from the spec: the function \<^verbatim>\<open>score(voteMap)\<close> is computed nowhere in the
  sources at hand (the swatches arrive with their \<^verbatim>\<open>score\<close> field already filled in);
  the specification gives it as \<^verbatim>\<open>2 \<times> likeCount + 1 \<times> unsureCount\<close>. It is named
  \<open>voteScore\<close> here, \<open>score\<close> being the swatch's field.
\<close>

definition voteScore :: "votemap \<Rightarrow> int" where
  "voteScore ratings =
     2 * int (count_list (map snd ratings) ''like'')
       + 1 * int (count_list (map snd ratings) ''unsure'')"

subsection \<open>Ratings module: state\<close>

text \<open>
  The offline record is the JSON text under the key \<^verbatim>\<open>houseRatings\<close> of
  \<^verbatim>\<open>localStorage\<close>: missing, not parseable, or an object from image ids to vote maps
  (the shape \<^verbatim>\<open>writeOfflineStore\<close> writes).
\<close>

type_synonym store = "(string \<times> votemap) list"

datatype local_item = Missing | Unparseable | Stored store

text \<open>
  The Firestore database: the documents \<^verbatim>\<open>users/{userName}\<close> and, for each image, the
  collection \<^verbatim>\<open>images/{imageId}/ratings\<close> as a list of documents, each a document id with
  the \<^verbatim>\<open>value\<close> field of its data (\<open>None\<close> when the field is missing).
\<close>

record remote =
  userDocs :: "string list"
  ratingDocs :: "string \<Rightarrow> (string \<times> string option) list"

type_synonym callback = nat

text \<open>
  The module's variables \<^verbatim>\<open>db\<close>, \<^verbatim>\<open>currentUser\<close>, \<^verbatim>\<open>cache\<close> and \<^verbatim>\<open>watchers\<close>, and what
  it reads from its environment: \<open>appUser\<close> is the result of \<^verbatim>\<open>App.getUser()\<close> (\<open>None\<close>
  also when \<^verbatim>\<open>App\<close> is not defined), \<open>storedUser\<close> is
  \<^verbatim>\<open>localStorage.getItem("houseColorUser")\<close>, \<open>offline\<close> is the offline record. A
  watcher set is a list without duplicates, in insertion order; callbacks are identified
  by numbers.
\<close>

record state =
  db :: "remote option"
  currentUser :: "string option"
  appUser :: "string option"
  storedUser :: "string option"
  offline :: local_item
  cache :: "string \<rightharpoonup> votemap"
  watchers :: "string \<rightharpoonup> callback list"

text \<open>
  What a call does to the outside, in the order it does it: a watcher invoked with a copy
  of the vote map, the \<^verbatim>\<open>ratingChanged\<close> event, a read and a write of the offline record,
  and the writes sent to Firestore (also those that then fail).
\<close>

datatype event =
    Notify callback votemap
  | RatingChanged string
  | LocalRead
  | LocalWrite store
  | RemoteUserSet string
  | RemoteRatingSet string string string
  | RemoteRatingDelete string string

text \<open>The persistence operations among the events.\<close>

fun isPersistence :: "event \<Rightarrow> bool" where
  "isPersistence (Notify fn ratings) = False"
| "isPersistence (RatingChanged imageId) = False"
| "isPersistence LocalRead = True"
| "isPersistence (LocalWrite s) = True"
| "isPersistence (RemoteUserSet name) = True"
| "isPersistence (RemoteRatingSet imageId user v) = True"
| "isPersistence (RemoteRatingDelete imageId user) = True"

text \<open>\<^verbatim>\<open>a || b\<close> on a string that may be \<^verbatim>\<open>null\<close>: the empty string is falsy.\<close>

fun orElse :: "string option \<Rightarrow> string \<Rightarrow> string" where
  "orElse None d = d"
| "orElse (Some s) d = (if s = [] then d else s)"

definition resolveUser :: "state \<Rightarrow> string" where
  "resolveUser st =
     orElse (currentUser st) (orElse (appUser st) (orElse (storedUser st) ''Guest''))"

definition loadOfflineStore :: "state \<Rightarrow> store" where
  "loadOfflineStore st =
     (case offline st of Missing \<Rightarrow> [] | Unparseable \<Rightarrow> [] | Stored s \<Rightarrow> s)"

definition writeOfflineStore :: "state \<Rightarrow> store \<Rightarrow> state" where
  "writeOfflineStore st s = st\<lparr>offline := Stored s\<rparr>"

definition getCachedRatings :: "state \<Rightarrow> string \<Rightarrow> votemap" where
  "getCachedRatings st imageId = (case cache st imageId of None \<Rightarrow> [] | Some r \<Rightarrow> r)"

definition notify :: "state \<Rightarrow> string \<Rightarrow> event list" where
  "notify st imageId =
     (case watchers st imageId of
        None \<Rightarrow> []
      | Some fns \<Rightarrow> map (\<lambda>fn. Notify fn (getCachedRatings st imageId)) fns)"

definition setCachedRatings :: "state \<Rightarrow> string \<Rightarrow> votemap \<Rightarrow> state \<times> event list" where
  "setCachedRatings st imageId ratings =
     (let st' = st\<lparr>cache := (cache st)(imageId \<mapsto> ratings)\<rparr>
      in (st', notify st' imageId))"

subsection \<open>Ratings module: reads and subscriptions\<close>

text \<open>
  The remote reads and writes are asynchronous and may fail. Whether one fails is an
  argument of the operation that issues it (\<open>readFails\<close>, \<open>userDocFails\<close>,
  \<open>writeFails\<close>); a failed write leaves the database as it was. A call is run to
  completion: the model does not interleave other calls at its \<^verbatim>\<open>await\<close>s, and the
  event list keeps the order of what it did. Watchers are observers: invoking one changes
  nothing in the module.
\<close>

text \<open>
  The loop \<^verbatim>\<open>snapshot.forEach((doc) => { const value = normalizeText(doc.data()?.value);
  if (VALID.has(value)) ratings[doc.id] = value; })\<close> of \<^verbatim>\<open>getRatings\<close> and of the
  \<^verbatim>\<open>onSnapshot\<close> handler in \<^verbatim>\<open>mountCard\<close>. Firestore admits no document id of the
  form \<^verbatim>\<open>__.*__\<close>, so \<^verbatim>\<open>__proto__\<close> is not the id of a document of a snapshot, and the
  assignment stores the cell.
\<close>

fun snapshotLoop :: "(string \<times> string option) list \<Rightarrow> votemap \<Rightarrow> votemap" where
  "snapshotLoop [] ratings = ratings"
| "snapshotLoop ((docId, v) # docs) ratings =
     (let value = normalizeText v
      in snapshotLoop docs
           (if value \<in> VALID then AList.update docId value ratings else ratings))"

text \<open>
  A rejected Firestore request is the error value; \<^verbatim>\<open>try { await ... } catch\<close> is the
  case distinction on the result.
\<close>

datatype error = StoreUnavailable

text \<open>\<^verbatim>\<open>db.collection("images").doc(id).collection("ratings").get()\<close>\<close>

definition remoteRead ::
    "remote \<Rightarrow> string \<Rightarrow> bool \<Rightarrow> error + (string \<times> string option) list" where
  "remoteRead r imgId readFails =
     (if readFails then Inl StoreUnavailable else Inr (ratingDocs r imgId))"

text \<open>\<^verbatim>\<open>{ ...(store[id] || {}) }\<close> on the offline record.\<close>

definition offlineRatings :: "state \<Rightarrow> string \<Rightarrow> votemap" where
  "offlineRatings st imageId =
     (case map_of (loadOfflineStore st) imageId of None \<Rightarrow> [] | Some m \<Rightarrow> m)"

definition getRatings :: "state \<Rightarrow> string option \<Rightarrow> bool \<Rightarrow> votemap" where
  "getRatings st imageId readFails =
     (let imgId = normalizeText imageId in
      if imgId = [] then []
      else
        case db st of
          None \<Rightarrow> offlineRatings st imgId
        | Some r \<Rightarrow>
            (case remoteRead r imgId readFails of
               Inr snapshot \<Rightarrow> snapshotLoop snapshot []
             | Inl _ \<Rightarrow> offlineRatings st imgId))"

text \<open>
  The handle \<^verbatim>\<open>subscribeToRatings\<close> returns: the function that does nothing, or the
  closure over the normalised id and the callback.
\<close>

datatype unsub = Noop | Remove string callback

text \<open>
  The hydration \<^verbatim>\<open>getRatings(id).then((ratings) => setCachedRatings(id, ratings))\<close> that
  \<^verbatim>\<open>subscribeToRatings\<close> starts when the cache has no entry for the image. Without a
  database \<^verbatim>\<open>getRatings\<close> reads the offline record during the call, so the vote map is
  fixed then; with a database the read request is under way when the call returns.
\<close>

datatype hydration = NoHydration | OfflineRead votemap | RemoteReadPending

text \<open>
  \<^verbatim>\<open>subscribeToRatings(imageId, callback)\<close>; \<open>callback = None\<close> is an argument that is
  not a function. The result is the state, the events, the hydration started, and the
  handle.
\<close>

definition subscribeToRatings ::
    "state \<Rightarrow> string option \<Rightarrow> callback option
       \<Rightarrow> state \<times> event list \<times> hydration \<times> unsub" where
  "subscribeToRatings st imageId callback =
     (let imgId = normalizeText imageId in
      case callback of
        None \<Rightarrow> (st, [], NoHydration, Noop)
      | Some fn \<Rightarrow>
          if imgId = [] then (st, [], NoHydration, Noop)
          else
            let fns = (case watchers st imgId of None \<Rightarrow> [] | Some fs \<Rightarrow> fs);
                fns' = (if fn \<in> set fns then fns else fns @ [fn]);
                st1 = st\<lparr>watchers := (watchers st)(imgId \<mapsto> fns')\<rparr>
            in (st1, [Notify fn (getCachedRatings st1 imgId)],
                (if cache st1 imgId = None
                 then (case db st1 of
                         None \<Rightarrow> OfflineRead (offlineRatings st1 imgId)
                       | Some _ \<Rightarrow> RemoteReadPending)
                 else NoHydration),
                Remove imgId fn))"

text \<open>
  The completion of the hydration, in the state the module is in by then. \<open>answer\<close> is
  what the database returned to a pending read; when it is an error, the \<^verbatim>\<open>catch\<close> of
  \<^verbatim>\<open>getRatings\<close> reads the offline record at that moment.
\<close>

definition hydrated ::
    "state \<Rightarrow> string \<Rightarrow> hydration \<Rightarrow> error + (string \<times> string option) list
       \<Rightarrow> state \<times> event list" where
  "hydrated st imgId h answer =
     (case h of
        NoHydration \<Rightarrow> (st, [])
      | OfflineRead ratings \<Rightarrow> setCachedRatings st imgId ratings
      | RemoteReadPending \<Rightarrow>
          (case answer of
             Inr snapshot \<Rightarrow> setCachedRatings st imgId (snapshotLoop snapshot [])
           | Inl _ \<Rightarrow> setCachedRatings st imgId (offlineRatings st imgId)))"

text \<open>
  Calling the handle: \<^verbatim>\<open>const set = watchers.get(id); if (!set) return;
  set.delete(callback); if (!set.size) watchers.delete(id);\<close>
\<close>

fun unsubscribe :: "state \<Rightarrow> unsub \<Rightarrow> state" where
  "unsubscribe st Noop = st"
| "unsubscribe st (Remove imgId fn) =
     (case watchers st imgId of
        None \<Rightarrow> st
      | Some fns \<Rightarrow>
          let fns' = removeAll fn fns in
          if fns' = [] then st\<lparr>watchers := (watchers st)(imgId := None)\<rparr>
          else st\<lparr>watchers := (watchers st)(imgId \<mapsto> fns')\<rparr>)"

text \<open>
  The \<^verbatim>\<open>onSnapshot\<close> handler \<^verbatim>\<open>mountCard\<close> registers when there is a database: a
  snapshot of the image's collection replaces the cached vote map.
\<close>

definition onSnapshot :: "state \<Rightarrow> string \<Rightarrow> (string \<times> string option) list \<Rightarrow> state \<times> event list" where
  "onSnapshot st imgId docs = setCachedRatings st imgId (snapshotLoop docs [])"

subsection \<open>Ratings module: \<^verbatim>\<open>setRating\<close>\<close>

text \<open>
  Firestore rejects a write to a document whose id has the form \<^verbatim>\<open>__.*__\<close>, whatever
  else may make a write fail.
\<close>

definition reservedId :: "string \<Rightarrow> bool" where
  "reservedId s = (4 \<le> length s \<and> take 2 s = ''__'' \<and> take 2 (rev s) = ''__'')"

definition ensureUserDocument :: "state \<Rightarrow> string \<Rightarrow> bool \<Rightarrow> state \<times> event list" where
  "ensureUserDocument st userName userDocFails =
     (case db st of
        None \<Rightarrow> (st, [])
      | Some r \<Rightarrow>
          let name = normalizeText (Some userName) in
          if name = [] then (st, [])
          else if userDocFails \<or> reservedId name then (st, [RemoteUserSet name])
          else (st\<lparr>db := Some (r\<lparr>userDocs := List.insert name (userDocs r)\<rparr>)\<rparr>,
                [RemoteUserSet name]))"

text \<open>
  The change \<^verbatim>\<open>setRating\<close> makes to the offline record, in both places it does so:
  \<^verbatim>\<open>if (isToggleOff) { if (store[id]) delete store[id][user]; }
  else { store[id] = { ...(store[id] || {}), [user]: value }; }\<close>
  The computed key \<^verbatim>\<open>[user]: value\<close> of the object literal defines an own property for
  every key; \<^verbatim>\<open>store[id] = ...\<close> is an assignment. For an image id that is no own
  property of the record, \<^verbatim>\<open>store[id]\<close> is either \<^verbatim>\<open>undefined\<close> or inherited, and a
  \<^verbatim>\<open>delete\<close> through it leaves the record as it is.
\<close>

definition offlineDelta :: "store \<Rightarrow> string \<Rightarrow> string \<Rightarrow> string \<Rightarrow> bool \<Rightarrow> store" where
  "offlineDelta s imgId user value isToggleOff =
     (if isToggleOff then
        (case map_of s imgId of
           None \<Rightarrow> s
         | Some m \<Rightarrow> AList.update imgId (AList.delete user m) s)
      else
        assign imgId
          (AList.update user value (case map_of s imgId of None \<Rightarrow> [] | Some m \<Rightarrow> m)) s)"

definition persistOffline ::
    "state \<Rightarrow> string \<Rightarrow> string \<Rightarrow> string \<Rightarrow> bool \<Rightarrow> state \<times> event list" where
  "persistOffline st imgId user value isToggleOff =
     (let s = offlineDelta (loadOfflineStore st) imgId user value isToggleOff
      in (writeOfflineStore st s, [LocalRead, LocalWrite s]))"

text \<open>The write sent to \<^verbatim>\<open>images/{id}/ratings/{user}\<close>, and what it does to the database.\<close>

definition remoteRequest :: "string \<Rightarrow> string \<Rightarrow> string \<Rightarrow> bool \<Rightarrow> event" where
  "remoteRequest imgId user value isToggleOff =
     (if isToggleOff then RemoteRatingDelete imgId user else RemoteRatingSet imgId user value)"

definition remoteApply :: "remote \<Rightarrow> string \<Rightarrow> string \<Rightarrow> string \<Rightarrow> bool \<Rightarrow> remote" where
  "remoteApply r imgId user value isToggleOff =
     r\<lparr>ratingDocs := (ratingDocs r)
         (imgId := (if isToggleOff then AList.delete user (ratingDocs r imgId)
                    else AList.update user (Some value) (ratingDocs r imgId)))\<rparr>"

text \<open>
  The awaited \<^verbatim>\<open>.delete()\<close> or \<^verbatim>\<open>.set({ value, updatedAt }, { merge: true })\<close>: rejected,
  or applied to the database.
\<close>

definition remoteWrite ::
    "state \<Rightarrow> string \<Rightarrow> string \<Rightarrow> string \<Rightarrow> bool \<Rightarrow> bool \<Rightarrow> error + state" where
  "remoteWrite st imgId user value isToggleOff writeFails =
     (if writeFails \<or> reservedId imgId \<or> reservedId user then Inl StoreUnavailable
      else Inr (st\<lparr>db := map_option (\<lambda>r. remoteApply r imgId user value isToggleOff)
                             (db st)\<rparr>))"

definition setRating ::
    "state \<Rightarrow> string option \<Rightarrow> string option \<Rightarrow> bool \<Rightarrow> bool \<Rightarrow> state \<times> event list" where
  "setRating st imageId rating userDocFails writeFails =
     (let imgId = normalizeText imageId; value = normalizeText rating in
      if imgId = [] then (st, [])
      else if value \<notin> VALID then (st, [])
      else
        let user = resolveUser st in
        if user = [] then (st, [])
        else
          let currentRatings = getCachedRatings st imgId;
              isToggleOff = (map_of currentRatings user = Some value);
              next = (if isToggleOff then AList.delete user currentRatings
                      else assign user value currentRatings);
              (st1, notified) = setCachedRatings st imgId next;
              dispatched = [RatingChanged imgId]
          in
            case db st1 of
              None \<Rightarrow>
                let (st2, persisted) = persistOffline st1 imgId user value isToggleOff
                in (st2, notified @ dispatched @ persisted)
            | Some _ \<Rightarrow>
                let (st2, ensured) = ensureUserDocument st1 user userDocFails;
                    request = remoteRequest imgId user value isToggleOff
                in
                  case remoteWrite st2 imgId user value isToggleOff writeFails of
                    Inr st3 \<Rightarrow> (st3, notified @ dispatched @ ensured @ [request])
                  | Inl _ \<Rightarrow>
                      let (st3, persisted) = persistOffline st2 imgId user value isToggleOff
                      in (st3, notified @ dispatched @ ensured @ [request] @ persisted))"

text \<open>
  \<^verbatim>\<open>init(firestore, userName)\<close>, and the module as it is once its script has run: no
  database, no current user, nothing cached and nobody watching.
\<close>

definition loaded :: "string option \<Rightarrow> string option \<Rightarrow> local_item \<Rightarrow> state" where
  "loaded app stored item =
     \<lparr>db = None, currentUser = None, appUser = app, storedUser = stored, offline = item,
      cache = Map.empty, watchers = Map.empty\<rparr>"

definition init :: "state \<Rightarrow> remote option \<Rightarrow> string option \<Rightarrow> bool \<Rightarrow> state \<times> event list" where
  "init st firestore userName userDocFails =
     (let st1 = st\<lparr>db := firestore,
                    currentUser := (case userName of
                                      None \<Rightarrow> None
                                    | Some u \<Rightarrow> if u = [] then None else Some u)\<rparr>
      in ensureUserDocument st1 (resolveUser st1) userDocFails)"

subsection \<open>Sample sessions\<close>

text \<open>
  Concrete states for evaluating the operations: a database with no documents, a session
  of Alice without a database and one with it, the latter with four rating documents for
  \<^verbatim>\<open>img1\<close> (one valid after trimming, one with an unknown value, one without a value, one
  valid), and with a vote of Alice left in the offline record; and a session without a
  database of a visitor who gave the name \<^verbatim>\<open>__proto__\<close>.
\<close>

definition emptyRemote :: remote where
  "emptyRemote = \<lparr>userDocs = [], ratingDocs = (\<lambda>_. [])\<rparr>"

definition offlineSession :: state where
  "offlineSession = fst (init (loaded None None Missing) None (Some ''Alice'') False)"

definition remoteSession :: state where
  "remoteSession =
     fst (init (loaded None None Missing) (Some emptyRemote) (Some ''Alice'') False)"

definition mixedSession :: state where
  "mixedSession =
     remoteSession\<lparr>db := Some \<lparr>userDocs = [],
        ratingDocs = (\<lambda>_. [])(''img1'' :=
          [(''Alice'', Some '' like ''), (''Bob'', Some ''meh''), (''Carol'', None),
           (''Dan'', Some ''dislike'')])\<rparr>\<rparr>"

definition protoSession :: state where
  "protoSession = fst (init (loaded None None Missing) None (Some ''__proto__'') False)"

definition strandedSession :: state where
  "strandedSession = remoteSession\<lparr>offline := Stored [(''img1'', [(''Alice'', ''like'')])]\<rparr>"

section \<open>Properties\<close>

lemmas text_defs = normalizeText_def trim_def isWhitespace_def VALID_def

lemmas ratings_defs =
  setRating_def setCachedRatings_def notify_def getCachedRatings_def persistOffline_def
  offlineDelta_def loadOfflineStore_def writeOfflineStore_def ensureUserDocument_def
  remoteRequest_def remoteApply_def remoteWrite_def remoteRead_def resolveUser_def
  getRatings_def offlineRatings_def
  subscribeToRatings_def onSnapshot_def hydrated_def init_def loaded_def assign_def
  reservedId_def

lemmas session_defs =
  offlineSession_def remoteSession_def strandedSession_def mixedSession_def protoSession_def
  emptyRemote_def

subsection \<open>Classification\<close>

lemma count_list_filter_length: "count_list xs x = length (filter (\<lambda>v. v = x) xs)"
  by (induction xs) auto

text \<open>
  C1. \<^verbatim>\<open>categorizeImage\<close> is a total function of the vote map that applies four rules in
  order: fewer than two votes is unrated; otherwise at least one like and no dislike is
  consensus; otherwise more dislikes than likes is rejected; otherwise at least one like and
  at least one dislike is controversial; everything else is unrated. The six sample maps of
  the specification classify as it says.
\<close>

theorem categorizeImage_rules:
  "categorizeImage (Some r) =
     (if length r < 2 then ''unrated''
      else if 0 < count_list (map snd r) ''like'' \<and> count_list (map snd r) ''dislike'' = 0
        then ''consensus''
      else if count_list (map snd r) ''like'' < count_list (map snd r) ''dislike''
        then ''rejected''
      else if 0 < count_list (map snd r) ''like'' \<and> 0 < count_list (map snd r) ''dislike''
        then ''controversial''
      else ''unrated'')
   \<and> categorizeImage (Some r) \<in> {''unrated'', ''consensus'', ''rejected'', ''controversial''}
   \<and> categorizeImage None = ''unrated''
   \<and> categorizeImage (Some []) = ''unrated''
   \<and> categorizeImage (Some [(''a'', ''like'')]) = ''unrated''
   \<and> categorizeImage (Some [(''a'', ''like''), (''b'', ''like'')]) = ''consensus''
   \<and> categorizeImage (Some [(''a'', ''like''), (''b'', ''dislike'')]) = ''controversial''
   \<and> categorizeImage (Some [(''a'', ''dislike''), (''b'', ''dislike'')]) = ''rejected''
   \<and> categorizeImage (Some [(''a'', ''dislike''), (''b'', ''like''), (''c'', ''dislike'')])
       = ''rejected''"
  by (simp add: categorizeImage_def Let_def count_list_filter_length)

subsection \<open>What \<^verbatim>\<open>setRating\<close> changes\<close>

text \<open>The fallback literal makes the resolved user non-empty.\<close>

lemma resolveUser_nonempty: "resolveUser st \<noteq> []"
  by (cases "currentUser st"; cases "appUser st"; cases "storedUser st")
     (auto simp: resolveUser_def)

text \<open>The assignment stores every key but \<^verbatim>\<open>__proto__\<close>, and touches no other key.\<close>

lemma assign_stores: "k \<noteq> ''__proto__'' \<Longrightarrow> assign k v obj = AList.update k v obj"
  by (simp add: assign_def)

lemma map_of_assign_other: "k' \<noteq> k \<Longrightarrow> map_of (assign k v obj) k' = map_of obj k'"
  by (simp add: assign_def update_conv')

lemma setRating_cache:
  "cache (fst (setRating st imageId rating u w)) =
     (let imgId = normalizeText imageId; value = normalizeText rating; user = resolveUser st;
          cur = getCachedRatings st imgId in
      if imgId = [] \<or> value \<notin> VALID then cache st
      else (cache st)(imgId \<mapsto>
             (if map_of cur user = Some value then AList.delete user cur
              else assign user value cur)))"
  using resolveUser_nonempty[of st]
  by (auto simp: setRating_def Let_def setCachedRatings_def persistOffline_def
        writeOfflineStore_def ensureUserDocument_def remoteWrite_def
        split: option.splits prod.splits)

lemma setRating_env:
  "currentUser (fst (setRating st imageId rating u w)) = currentUser st
   \<and> appUser (fst (setRating st imageId rating u w)) = appUser st
   \<and> storedUser (fst (setRating st imageId rating u w)) = storedUser st
   \<and> watchers (fst (setRating st imageId rating u w)) = watchers st"
  by (auto simp: setRating_def Let_def setCachedRatings_def persistOffline_def
        writeOfflineStore_def ensureUserDocument_def remoteWrite_def
        split: option.splits prod.splits)

lemma setRating_resolveUser:
  "resolveUser (fst (setRating st imageId rating u w)) = resolveUser st"
  by (simp add: resolveUser_def setRating_env)

text \<open>
  One call flips the caller's cell between the requested vote and no entry, for a caller
  whose name the assignment stores.
\<close>

lemma setRating_cell:
  assumes "normalizeText imageId \<noteq> []" "normalizeText rating \<in> VALID"
      and "resolveUser st \<noteq> ''__proto__''"
  shows "map_of (getCachedRatings (fst (setRating st imageId rating u w)) (normalizeText imageId))
           (resolveUser st)
         = (if map_of (getCachedRatings st (normalizeText imageId)) (resolveUser st)
                = Some (normalizeText rating)
            then None else Some (normalizeText rating))"
  using assms
  by (simp add: getCachedRatings_def setRating_cache Let_def assign_stores update_conv'
        delete_conv')

subsection \<open>Toggle\<close>

text \<open>
  C2 (as amended). For an image id that is not blank, a valid vote \<open>v\<close> and a voter
  whose name is not \<^verbatim>\<open>__proto__\<close>: when the voter's cached entry for the image is not
  already \<open>v\<close>, two calls of \<^verbatim>\<open>setRating\<close> in succession leave the voter without an entry
  and a third call leaves the entry \<open>v\<close>; when the entry already is \<open>v\<close>, the first call
  clears it and the second sets it to \<open>v\<close> again. The outcome of the remote writes plays
  no part.
\<close>

theorem setRating_toggle_cycle:
  assumes "normalizeText imageId \<noteq> []" and "normalizeText rating \<in> VALID"
      and "resolveUser st \<noteq> ''__proto__''"
  shows "(map_of (getCachedRatings st (normalizeText imageId)) (resolveUser st)
            \<noteq> Some (normalizeText rating) \<longrightarrow>
          map_of (getCachedRatings
                    (fst (setRating (fst (setRating st imageId rating u1 w1)) imageId rating u2 w2))
                    (normalizeText imageId)) (resolveUser st) = None
          \<and> map_of (getCachedRatings
                    (fst (setRating
                       (fst (setRating (fst (setRating st imageId rating u1 w1)) imageId rating u2 w2))
                       imageId rating u3 w3))
                    (normalizeText imageId)) (resolveUser st) = Some (normalizeText rating))
       \<and> (map_of (getCachedRatings st (normalizeText imageId)) (resolveUser st)
            = Some (normalizeText rating) \<longrightarrow>
          map_of (getCachedRatings (fst (setRating st imageId rating u1 w1))
                    (normalizeText imageId)) (resolveUser st) = None
          \<and> map_of (getCachedRatings
                    (fst (setRating (fst (setRating st imageId rating u1 w1)) imageId rating u2 w2))
                    (normalizeText imageId)) (resolveUser st) = Some (normalizeText rating))"
proof -
  let ?s1 = "fst (setRating st imageId rating u1 w1)"
  let ?s2 = "fst (setRating ?s1 imageId rating u2 w2)"
  let ?s3 = "fst (setRating ?s2 imageId rating u3 w3)"
  have r1: "resolveUser ?s1 = resolveUser st" by (rule setRating_resolveUser)
  have r2: "resolveUser ?s2 = resolveUser st" by (simp add: setRating_resolveUser)
  have p1: "resolveUser ?s1 \<noteq> ''__proto__''" unfolding r1 by (rule assms(3))
  have p2: "resolveUser ?s2 \<noteq> ''__proto__''" unfolding r2 by (rule assms(3))
  have c1: "map_of (getCachedRatings ?s1 (normalizeText imageId)) (resolveUser st)
         = (if map_of (getCachedRatings st (normalizeText imageId)) (resolveUser st)
                = Some (normalizeText rating)
            then None else Some (normalizeText rating))"
    by (rule setRating_cell[OF assms])
  have c2: "map_of (getCachedRatings ?s2 (normalizeText imageId)) (resolveUser st)
         = (if map_of (getCachedRatings ?s1 (normalizeText imageId)) (resolveUser st)
                = Some (normalizeText rating)
            then None else Some (normalizeText rating))"
    using setRating_cell[OF assms(1,2) p1, of u2 w2] by (simp only: r1)
  have c3: "map_of (getCachedRatings ?s3 (normalizeText imageId)) (resolveUser st)
         = (if map_of (getCachedRatings ?s2 (normalizeText imageId)) (resolveUser st)
                = Some (normalizeText rating)
            then None else Some (normalizeText rating))"
    using setRating_cell[OF assms(1,2) p2, of u3 w3] by (simp only: r2)
  show ?thesis
    by (simp add: c1 c2 c3)
qed

text \<open>Alice, with no vote on \<^verbatim>\<open>img1\<close> yet, clicks like three times.\<close>

theorem setRating_toggle_cycle_witness:
  "normalizeText (Some ''img1'') \<noteq> [] \<and> normalizeText (Some '' like '') \<in> VALID
   \<and> resolveUser offlineSession \<noteq> ''__proto__''
   \<and> map_of (getCachedRatings offlineSession ''img1'') ''Alice'' \<noteq> Some ''like''
   \<and> map_of (getCachedRatings
        (fst (setRating (fst (setRating offlineSession (Some ''img1'') (Some '' like '') False False))
               (Some ''img1'') (Some '' like '') False False)) ''img1'') ''Alice'' = None
   \<and> map_of (getCachedRatings
        (fst (setRating
          (fst (setRating (fst (setRating offlineSession (Some ''img1'') (Some '' like '') False False))
               (Some ''img1'') (Some '' like '') False False))
          (Some ''img1'') (Some '' like '') False False)) ''img1'') ''Alice'' = Some ''like''"
  using setRating_toggle_cycle[of "Some ''img1''" "Some '' like ''" offlineSession
          False False False False False False]
  by (simp add: text_defs ratings_defs session_defs Let_def)

text \<open>
  Stated for every image id, voter and starting cache state, the property fails in three
  places. Where the voter already holds the vote: from the state in which Alice likes
  \<^verbatim>\<open>img1\<close>, two further calls with like leave her entry in place. For the visitor
  named \<^verbatim>\<open>__proto__\<close>, whose votes the assignment never stores in the cached vote map:
  after three calls with like there is no entry. And on a blank image id, where every
  call returns at the guard: after three calls there is no entry either.
\<close>

theorem setRating_twice_counterexample:
  "map_of (getCachedRatings
             (fst (setRating offlineSession (Some ''img1'') (Some ''like'') False False))
             ''img1'') ''Alice'' = Some ''like''
   \<and> map_of (getCachedRatings
        (fst (setRating
          (fst (setRating
             (fst (setRating offlineSession (Some ''img1'') (Some ''like'') False False))
             (Some ''img1'') (Some ''like'') False False))
          (Some ''img1'') (Some ''like'') False False)) ''img1'') ''Alice'' \<noteq> None
   \<and> resolveUser protoSession = ''__proto__''
   \<and> map_of (getCachedRatings
        (fst (setRating
          (fst (setRating
             (fst (setRating protoSession (Some ''img1'') (Some ''like'') False False))
             (Some ''img1'') (Some ''like'') False False))
          (Some ''img1'') (Some ''like'') False False)) ''img1'') ''__proto__'' = None
   \<and> map_of (getCachedRatings
        (fst (setRating
          (fst (setRating
             (fst (setRating offlineSession (Some ''  '') (Some ''like'') False False))
             (Some ''  '') (Some ''like'') False False))
          (Some ''  '') (Some ''like'') False False)) (normalizeText (Some ''  ''))) ''Alice''
       = None"
  by (simp add: text_defs ratings_defs session_defs Let_def)

subsection \<open>Optimistic update before persistence\<close>



text \<open>
  The events of a call that passes the guards: the notifications read from the updated
  cache, the \<^verbatim>\<open>ratingChanged\<close> event, then persistence only.
\<close>

lemma setRating_trace:
  assumes "normalizeText imageId \<noteq> []" "normalizeText rating \<in> VALID"
  shows "\<exists>rest. snd (setRating st imageId rating u w)
           = notify (st\<lparr>cache := (cache st)(normalizeText imageId \<mapsto>
                (if map_of (getCachedRatings st (normalizeText imageId)) (resolveUser st)
                      = Some (normalizeText rating)
                 then AList.delete (resolveUser st) (getCachedRatings st (normalizeText imageId))
                 else assign (resolveUser st) (normalizeText rating)
                        (getCachedRatings st (normalizeText imageId))))\<rparr>) (normalizeText imageId)
             @ RatingChanged (normalizeText imageId) # rest
           \<and> rest \<noteq> [] \<and> list_all isPersistence rest"
  using assms resolveUser_nonempty[of st]
  by (auto simp: setRating_def Let_def setCachedRatings_def persistOffline_def
        ensureUserDocument_def remoteRequest_def remoteWrite_def
        split: option.splits prod.splits)


lemma setRating_blank:
  "normalizeText imageId = [] \<Longrightarrow> setRating st imageId rating u w = (st, [])"
  by (simp add: setRating_def Let_def)




subsection \<open>Invalid votes\<close>

text \<open>
  C5. A \<^verbatim>\<open>setRating\<close> call whose vote, once trimmed, is none of like, unsure and dislike
  does nothing and reports nothing: the state (cache, offline record, database, watchers)
  is returned as it was, and there is no event, so no watcher is invoked and no
  \<^verbatim>\<open>ratingChanged\<close> event is dispatched.
\<close>

theorem setRating_invalid_noop:
  "normalizeText rating \<notin> VALID \<Longrightarrow> setRating st imageId rating u w = (st, [])"
  by (simp add: setRating_def Let_def)

theorem setRating_invalid_noop_witness:
  "normalizeText (Some ''love'') \<notin> VALID
   \<and> setRating remoteSession (Some ''img1'') (Some ''love'') False False = (remoteSession, [])"
  using setRating_invalid_noop[of "Some ''love''" remoteSession "Some ''img1''" False False]
  by (simp add: text_defs)

subsection \<open>Reading when the database fails\<close>

text \<open>
  C6 (as amended). A \<^verbatim>\<open>getRatings\<close> call whose read of the database fails does not throw:
  it falls back to the offline record and returns a copy of the record's vote map for the
  image, which is the empty vote map only when the record has none for it (or the id
  is blank).
\<close>

theorem getRatings_read_failure:
  "getRatings st imageId True =
     (if normalizeText imageId = [] then []
      else case map_of (loadOfflineStore st) (normalizeText imageId) of
             None \<Rightarrow> [] | Some m \<Rightarrow> m)"
  by (simp add: getRatings_def Let_def offlineRatings_def remoteRead_def split: option.splits)

text \<open>
  With a vote of Alice in the offline record, the failed read returns that vote, not the
  empty vote map.
\<close>

theorem getRatings_read_failure_counterexample:
  "getRatings strandedSession (Some ''img1'') True = [(''Alice'', ''like'')]
   \<and> getRatings strandedSession (Some ''img1'') True \<noteq> []"
  by (simp add: text_defs ratings_defs session_defs Let_def)

subsection \<open>Voter isolation\<close>

text \<open>
  C9. A \<^verbatim>\<open>setRating\<close> call, whatever its arguments and the state, leaves every voter
  other than the caller with the entry, or the absence of one, they had in the cached vote
  map of the image (and of every other image).
\<close>

theorem setRating_voter_isolation:
  "voter \<noteq> resolveUser st \<Longrightarrow>
   map_of (getCachedRatings (fst (setRating st imageId rating u w)) k) voter
     = map_of (getCachedRatings st k) voter"
  by (simp add: getCachedRatings_def setRating_cache Let_def map_of_assign_other delete_conv')

text \<open>Bob's dislike, arrived by a snapshot, survives Alice's like.\<close>

theorem setRating_voter_isolation_witness:
  "''Bob'' \<noteq> resolveUser remoteSession
   \<and> map_of (getCachedRatings
        (fst (setRating (fst (onSnapshot remoteSession ''img1'' [(''Bob'', Some ''dislike'')]))
               (Some ''img1'') (Some ''like'') False False)) ''img1'') ''Bob'' = Some ''dislike''"
  using setRating_voter_isolation[of "''Bob''"
     "fst (onSnapshot remoteSession ''img1'' [(''Bob'', Some ''dislike'')])"
     "Some ''img1''" "Some ''like''" False False "''img1''"]
  by (simp add: text_defs ratings_defs session_defs Let_def)

subsection \<open>Fallback when the write fails\<close>

lemma setRating_fallback_offline:
  assumes "normalizeText imageId \<noteq> []" "normalizeText rating \<in> VALID" "db st \<noteq> None"
  shows "offline (fst (setRating st imageId rating u True))
     = Stored (offlineDelta (loadOfflineStore st) (normalizeText imageId) (resolveUser st)
         (normalizeText rating)
         (map_of (getCachedRatings st (normalizeText imageId)) (resolveUser st)
            = Some (normalizeText rating)))"
  using assms resolveUser_nonempty[of st]
  by (auto simp: setRating_def Let_def setCachedRatings_def persistOffline_def
        writeOfflineStore_def loadOfflineStore_def ensureUserDocument_def remoteWrite_def
        split: option.splits prod.splits)

text \<open>A rejected write leaves the rating documents of the database as they were.\<close>

lemma setRating_failed_write_docs:
  "map_option ratingDocs (db (fst (setRating st imageId rating u True)))
     = map_option ratingDocs (db st)"
  by (auto simp: setRating_def Let_def setCachedRatings_def persistOffline_def
        writeOfflineStore_def ensureUserDocument_def remoteWrite_def
        split: option.splits prod.splits)

text \<open>The change to the offline record sets or clears one cell and keeps every other.\<close>

lemma offlineDelta_cell:
  "k \<noteq> ''__proto__'' \<Longrightarrow>
   map_of (case map_of (offlineDelta s k user v t) k of None \<Rightarrow> [] | Some m \<Rightarrow> m) user
     = (if t then None else Some v)"
  by (auto simp: offlineDelta_def assign_stores update_conv' delete_conv' split: option.splits)

lemma offlineDelta_frame:
  "k' \<noteq> k \<or> voter \<noteq> user \<Longrightarrow>
   map_of (case map_of (offlineDelta s k user v t) k' of None \<Rightarrow> [] | Some m \<Rightarrow> m) voter
     = map_of (case map_of s k' of None \<Rightarrow> [] | Some m \<Rightarrow> m) voter"
  by (auto simp: offlineDelta_def assign_def update_conv' delete_conv' split: option.splits)

text \<open>
  C7 (as amended). When the write to the database fails during \<^verbatim>\<open>setRating\<close> (valid vote;
  image id not blank; neither the image id nor the voter's name is \<^verbatim>\<open>__proto__\<close>), the
  same change, set or delete of the caller's cell, is made to the offline record under its
  fixed key, and every other cell of the record, of this image and of the others, stays as
  it was. The record's cell for the image and the caller then equals the optimistic cell
  of the cache, and a later \<^verbatim>\<open>getRatings\<close> for the image returns that cell when its own
  read of the database fails as well. A later \<^verbatim>\<open>getRatings\<close> whose read of the database
  succeeds returns what it would have returned before the call: the vote map of the
  database's documents, which the rejected write did not change.
\<close>

theorem setRating_write_failure_fallback:
  assumes "normalizeText imageId \<noteq> []" and "normalizeText rating \<in> VALID" and "db st \<noteq> None"
      and "normalizeText imageId \<noteq> ''__proto__''" and "resolveUser st \<noteq> ''__proto__''"
  shows
    "(let imgId = normalizeText imageId; value = normalizeText rating; user = resolveUser st;
          isToggleOff = (map_of (getCachedRatings st imgId) user = Some value);
          st' = fst (setRating st imageId rating u True)
      in offline st' = Stored (offlineDelta (loadOfflineStore st) imgId user value isToggleOff)
       \<and> map_of (getCachedRatings st' imgId) user = (if isToggleOff then None else Some value)
       \<and> map_of (offlineRatings st' imgId) user = map_of (getCachedRatings st' imgId) user
       \<and> (k \<noteq> imgId \<or> voter \<noteq> user \<longrightarrow>
            map_of (offlineRatings st' k) voter = map_of (offlineRatings st k) voter)
       \<and> map_of (getRatings st' imageId True) user = map_of (getCachedRatings st' imgId) user
       \<and> getRatings st' imageId False = getRatings st imageId False)"
proof -
  let ?st' = "fst (setRating st imageId rating u True)"
  let ?t = "map_of (getCachedRatings st (normalizeText imageId)) (resolveUser st)
              = Some (normalizeText rating)"
  have off: "offline ?st'
     = Stored (offlineDelta (loadOfflineStore st) (normalizeText imageId) (resolveUser st)
         (normalizeText rating) ?t)"
    by (rule setRating_fallback_offline[OF assms(1,2,3)])
  have cell: "map_of (getCachedRatings ?st' (normalizeText imageId)) (resolveUser st)
         = (if ?t then None else Some (normalizeText rating))"
    by (rule setRating_cell[OF assms(1,2,5)])
  have rec: "map_of (offlineRatings ?st' (normalizeText imageId)) (resolveUser st)
         = (if ?t then None else Some (normalizeText rating))"
    by (simp only: offlineRatings_def loadOfflineStore_def off local_item.case
          offlineDelta_cell[OF assms(4)])
  have frame: "k \<noteq> normalizeText imageId \<or> voter \<noteq> resolveUser st \<longrightarrow>
      map_of (offlineRatings ?st' k) voter = map_of (offlineRatings st k) voter"
  proof
    assume other: "k \<noteq> normalizeText imageId \<or> voter \<noteq> resolveUser st"
    show "map_of (offlineRatings ?st' k) voter = map_of (offlineRatings st k) voter"
      unfolding offlineRatings_def
      by (simp only: loadOfflineStore_def[of ?st'] off local_item.case
            offlineDelta_frame[OF other])
  qed
  have get: "getRatings ?st' imageId True = offlineRatings ?st' (normalizeText imageId)"
    using assms(1) by (simp add: getRatings_def Let_def remoteRead_def split: option.splits)
  obtain r where r: "db st = Some r" using assms(3) by auto
  obtain r' where r': "db ?st' = Some r'" and docs: "ratingDocs r' = ratingDocs r"
    using setRating_failed_write_docs[of st imageId rating u] r by (cases "db ?st'") auto
  have same: "getRatings ?st' imageId False = getRatings st imageId False"
    by (simp add: getRatings_def Let_def remoteRead_def r r' docs)
  show ?thesis
    unfolding Let_def using frame by (simp only: off cell rec get same simp_thms)
qed

text \<open>
  Alice's like, its write rejected, lands in the offline record; Bob's cell there stays.
\<close>

theorem setRating_write_failure_fallback_witness:
  "normalizeText (Some ''img1'') \<noteq> [] \<and> normalizeText (Some ''like'') \<in> VALID
   \<and> db remoteSession \<noteq> None
   \<and> normalizeText (Some ''img1'') \<noteq> ''__proto__'' \<and> resolveUser remoteSession \<noteq> ''__proto__''
   \<and> offline (fst (setRating remoteSession (Some ''img1'') (Some ''like'') False True))
       = Stored [(''img1'', [(''Alice'', ''like'')])]
   \<and> getRatings (fst (setRating remoteSession (Some ''img1'') (Some ''like'') False True))
       (Some ''img1'') True = [(''Alice'', ''like'')]
   \<and> map_of (offlineRatings
        (fst (setRating remoteSession (Some ''img1'') (Some ''like'') False True)) ''img1'') ''Bob''
       = map_of (offlineRatings remoteSession ''img1'') ''Bob''"
  using setRating_write_failure_fallback[where imageId = "Some ''img1''"
          and rating = "Some ''like''" and st = remoteSession and k = "''img1''"
          and voter = "''Bob''" and u = False]
  by (simp add: text_defs ratings_defs session_defs Let_def)

text \<open>
  \<^verbatim>\<open>getRatings\<close> does not consult the cache: after the rejected write, a read of the
  database that succeeds returns the database's documents, without Alice's like, while the
  cache holds it.
\<close>

theorem setRating_write_failure_counterexample:
  "map_of (getCachedRatings
             (fst (setRating remoteSession (Some ''img1'') (Some ''like'') False True)) ''img1'')
          ''Alice'' = Some ''like''
   \<and> getRatings (fst (setRating remoteSession (Some ''img1'') (Some ''like'') False True))
        (Some ''img1'') False = []"
  by (simp add: text_defs ratings_defs session_defs Let_def)

subsection \<open>Unsubscribing\<close>

lemma subscribe_handle:
  "snd (snd (snd (subscribeToRatings st imageId (Some fn))))
     = (if normalizeText imageId = [] then Noop else Remove (normalizeText imageId) fn)"
  by (simp add: subscribeToRatings_def Let_def)

lemma unsubscribe_idem: "unsubscribe (unsubscribe st h) h = unsubscribe st h"
  by (cases h) (auto simp: Let_def split: option.splits)

lemma unsubscribe_removed:
  "watchers (unsubscribe st (Remove k fn)) k = Some fns \<Longrightarrow> fn \<notin> set fns"
  by (auto simp: Let_def split: option.splits if_splits)

lemma notify_members:
  "Notify fn vm \<in> set (notify st k) \<Longrightarrow> \<exists>fns. watchers st k = Some fns \<and> fn \<in> set fns"
  by (cases "watchers st k") (auto simp: notify_def)

text \<open>Only a registered watcher of the image is invoked by \<^verbatim>\<open>setRating\<close>.\<close>

lemma setRating_notified:
  assumes "Notify fn vm \<in> set (snd (setRating st imageId rating u w))"
  shows "\<exists>fns. watchers st (normalizeText imageId) = Some fns \<and> fn \<in> set fns"
proof -
  have valid: "normalizeText imageId \<noteq> []" "normalizeText rating \<in> VALID"
    using assms by (auto simp: setRating_def Let_def split: if_splits)
  obtain st1 rest where tr: "snd (setRating st imageId rating u w)
        = notify st1 (normalizeText imageId) @ RatingChanged (normalizeText imageId) # rest"
    and w: "watchers st1 = watchers st" and pers: "list_all isPersistence rest"
    using setRating_trace[OF valid, of st u w] by fastforce
  have "Notify fn vm \<notin> set rest"
    using pers by (auto simp: list_all_iff)
  then have "Notify fn vm \<in> set (notify st1 (normalizeText imageId))"
    using assms unfolding tr by auto
  then show ?thesis
    using notify_members[of fn vm st1] by (simp add: w)
qed

text \<open>
  C8. Let \<open>h\<close> be the handle \<^verbatim>\<open>subscribeToRatings\<close> returned for an image and a callback.
  Running \<open>h\<close>, in whatever state the module is by then, has no error path; running it a
  second time changes nothing more; running it when the image has no watcher set leaves
  the state as it is; after it has run, a \<^verbatim>\<open>setRating\<close> on the image does not invoke the
  callback; and when the callback was the only watcher of the image, the registry has no
  entry for the image afterwards.
\<close>

theorem unsubscribe_idempotent_leak_free:
  assumes "h = snd (snd (snd (subscribeToRatings st0 imageId (Some fn))))"
  shows "unsubscribe (unsubscribe st h) h = unsubscribe st h
       \<and> (watchers st (normalizeText imageId) = None \<longrightarrow> unsubscribe st h = st)
       \<and> Notify fn vm \<notin> set (snd (setRating (unsubscribe st h) imageId rating u w))
       \<and> (normalizeText imageId \<noteq> [] \<and> watchers st (normalizeText imageId) = Some [fn] \<longrightarrow>
            watchers (unsubscribe st h) (normalizeText imageId) = None)"
proof (cases "normalizeText imageId = []")
  case True
  then have h: "h = Noop" using assms by (simp add: subscribe_handle)
  show ?thesis using True by (simp add: h setRating_blank)
next
  case False
  then have h: "h = Remove (normalizeText imageId) fn" using assms by (simp add: subscribe_handle)
  have "Notify fn vm \<notin> set (snd (setRating (unsubscribe st h) imageId rating u w))"
    using setRating_notified[of fn vm "unsubscribe st h" imageId rating u w]
          unsubscribe_removed[of st "normalizeText imageId" fn]
    unfolding h by blast
  then show ?thesis
    by (simp add: unsubscribe_idem) (simp add: h)
qed

text \<open>
  Watcher 7 subscribes to \<^verbatim>\<open>img1\<close> as the only watcher and unsubscribes: the registry
  entry is gone, a second run of the handle changes nothing, and the next vote notifies
  nobody.
\<close>

theorem unsubscribe_idempotent_leak_free_witness:
  "normalizeText (Some '' img1 '') = ''img1''
   \<and> watchers offlineSession ''img1'' = None
   \<and> unsubscribe offlineSession (Remove ''img1'' 7) = offlineSession
   \<and> watchers (fst (subscribeToRatings offlineSession (Some '' img1 '') (Some 7))) ''img1'' = Some [7]
   \<and> snd (snd (snd (subscribeToRatings offlineSession (Some '' img1 '') (Some 7)))) = Remove ''img1'' 7
   \<and> watchers (unsubscribe (fst (subscribeToRatings offlineSession (Some '' img1 '') (Some 7)))
                 (Remove ''img1'' 7)) ''img1'' = None
   \<and> unsubscribe (unsubscribe (fst (subscribeToRatings offlineSession (Some '' img1 '') (Some 7)))
                 (Remove ''img1'' 7)) (Remove ''img1'' 7)
      = unsubscribe (fst (subscribeToRatings offlineSession (Some '' img1 '') (Some 7)))
                 (Remove ''img1'' 7)
   \<and> snd (setRating (unsubscribe (fst (subscribeToRatings offlineSession (Some '' img1 '') (Some 7)))
                 (Remove ''img1'' 7)) (Some '' img1 '') (Some ''like'') False False)
      = [RatingChanged ''img1'', LocalRead, LocalWrite [(''img1'', [(''Alice'', ''like'')])]]"
  using unsubscribe_idempotent_leak_free[of "Remove ''img1'' 7" offlineSession "Some '' img1 ''" 7
      "fst (subscribeToRatings offlineSession (Some '' img1 '') (Some 7))"
      "[(''Alice'', ''like'')]" "Some ''like''" False False]
  by (simp add: text_defs ratings_defs session_defs Let_def)

subsection \<open>Vote maps built from snapshots\<close>







subsection \<open>Score and tiers\<close>

lemma set_insertBy: "set (insertBy cmp x xs) = insert x (set xs)"
  by (induction xs) auto

lemma set_sortBy: "set (sortBy cmp xs) = set xs"
  by (induction xs) (auto simp: sortBy_def set_insertBy)

lemma groupLoop_members:
  "i \<in> set (groupLoop ratingsFor images groups k)
     \<longleftrightarrow> i \<in> set (groups k) \<or> (i \<in> set images \<and> tierKey (ratingsFor i) = k)"
  by (induction images arbitrary: groups) (auto simp: Let_def)

text \<open>
  C3 (as amended). The score of a vote map, \<open>2 \<times> likes + unsures\<close>, is 5 for two likes
  and one unsure: an unsure vote adds 1, a like 2, a dislike nothing. The swatches are
  bucketed on their pre-computed score field (a missing score counting as 0): favorites
  from 5, strong from 4, promising from 3, controversial up to 2. The gallery does not
  bucket images by score: \<^verbatim>\<open>groupImagesByLikes\<close> files an image under its like count,
  capped at 3, which an unsure vote does not change.
\<close>

theorem score_and_tiers:
  "voteScore [(''a'', ''like''), (''b'', ''like''), (''c'', ''unsure'')] = 5
   \<and> voteScore (r @ [(voter, ''unsure'')]) = voteScore r + 1
   \<and> voteScore (r @ [(voter, ''like'')]) = voteScore r + 2
   \<and> voteScore (r @ [(voter, ''dislike'')]) = voteScore r
   \<and> (s \<in> set (applyLikesFilter swatches ''favorites'')
        \<longleftrightarrow> s \<in> set swatches \<and> 5 \<le> orZero (score s))
   \<and> (s \<in> set (applyLikesFilter swatches ''strong'')
        \<longleftrightarrow> s \<in> set swatches \<and> 4 \<le> orZero (score s))
   \<and> (s \<in> set (applyLikesFilter swatches ''promising'')
        \<longleftrightarrow> s \<in> set swatches \<and> 3 \<le> orZero (score s))
   \<and> (s \<in> set (applyLikesFilter swatches ''controversial'')
        \<longleftrightarrow> s \<in> set swatches \<and> orZero (score s) \<le> 2)
   \<and> tierKey r = min 3 (int (count_list (map snd r) ''like''))
   \<and> tierKey (r @ [(voter, ''unsure'')]) = tierKey r
   \<and> (i \<in> set (groupImagesByLikes ratingsFor images k)
        \<longleftrightarrow> i \<in> set images \<and> tierKey (ratingsFor i) = k)"
  by (simp add: voteScore_def applyLikesFilter_def set_sortBy tierKey_def Let_def
        count_list_filter_length groupImagesByLikes_def groupLoop_members)

text \<open>
  Two likes and one unsure score 5, yet the gallery files the image under 2 likes
  (Strong), not under the top tier (Favorites, 3 likes); a single unsure vote scores 1
  and shares the bottom tier, named Rejected, with the images nobody voted on.
\<close>

theorem score_tiers_counterexample:
  "voteScore [(''a'', ''like''), (''b'', ''like''), (''c'', ''unsure'')] = 5
   \<and> tierKey [(''a'', ''like''), (''b'', ''like''), (''c'', ''unsure'')] = 2
   \<and> map_of TIERS 2 = Some ''Strong'' \<and> map_of TIERS 3 = Some ''Favorites''
   \<and> voteScore [(''a'', ''unsure'')] = 1
   \<and> tierKey [(''a'', ''unsure'')] = 0 \<and> tierKey [] = 0
   \<and> map_of TIERS 0 = Some ''Rejected''"
  by (simp add: voteScore_def tierKey_def TIERS_def)

end
